theory Spec2Isabelle
  imports Complex_Main "HOL-Library.State_Monad"
begin

section \<open>The BollinGrid controller\<close>

text \<open>
  The controller of \<^verbatim>\<open>controllers/bollingrid.py\<close> is a policy object: three decision
  functions over an executor and an order level, and \<^verbatim>\<open>get_position_config\<close>, which sizes
  a position from the close price and the indicator values of the last candle.

  A finite \<^verbatim>\<open>Decimal\<close> is the rational number it denotes, and every \<^verbatim>\<open>Decimal\<close> operation
  rounds its exact result to the 28 significant digits of the default context.  The
  timestamps are \<^verbatim>\<open>float\<close>s, read as the rationals they denote; their sums with an integer
  number of seconds are exact at the size of a clock reading.  The wall clock
  (\<^verbatim>\<open>time.time()\<close>) is an explicit argument \<open>now\<close> of every function that reads it.
\<close>

subsection \<open>Data of the framework that the controller reads and builds\<close>

text \<open>
  The classes below are declared by the trading framework.  Each record has the fields
  that the controller reads or writes, under the names the source uses.  \<^verbatim>\<open>TradeType\<close> has
  a third member, \<^verbatim>\<open>RANGE\<close>, besides the two the controller names.  The barriers of an
  order level are optional (\<^verbatim>\<open>None\<close> when not set); the two fields of a \<^verbatim>\<open>TrailingStop\<close>
  are required.  The type of order types is only passed through and is a type parameter.
\<close>

datatype TradeType = BUY | SELL | RANGE

record 'ot TripleBarrierConf =
  stop_loss :: "rat option"
  take_profit :: "rat option"
  time_limit :: "int option"
  trailing_stop_activation_price_delta :: "rat option"
  trailing_stop_trailing_delta :: "rat option"
  open_order_type :: 'ot
  take_profit_order_type :: 'ot

record 'ot OrderLevel =
  side :: TradeType
  order_amount_usd :: rat
  spread_factor :: rat
  order_refresh_time :: int
  cooldown_time :: int
  triple_barrier_conf :: "'ot TripleBarrierConf"

record TrailingStop =
  activation_price_delta :: rat
  trailing_delta :: rat

record 'ot PositionConfig =
  timestamp :: rat
  trading_pair :: string
  exchange :: string
  side :: TradeType
  amount :: rat
  take_profit :: rat
  stop_loss :: "rat option"
  time_limit :: "int option"
  entry_price :: rat
  open_order_type :: 'ot
  take_profit_order_type :: 'ot
  trailing_stop :: "TrailingStop option"
  leverage :: int

record 'ot PositionExecutor =
  position_config :: "'ot PositionConfig"
  close_timestamp :: "rat option"

record MarketMakingControllerConfigBase =
  exchange :: string
  trading_pair :: string
  leverage :: int

record BollinGridConfig = MarketMakingControllerConfigBase +
  strategy_name :: string
  bb_length :: int
  bb_long_threshold :: rat
  bb_short_threshold :: rat
  natr_length :: int

subsection \<open>Decimal arithmetic\<close>

text \<open>
  The default context of the \<^verbatim>\<open>decimal\<close> module: 28 significant digits, ties rounded to the
  even neighbour.  The limits on the exponent and the special values (\<^verbatim>\<open>NaN\<close>, the
  infinities) are not part of the model.
\<close>

definition prec :: int where
  "prec = 28"

definition round_half_even :: "rat \<Rightarrow> int" where
  "round_half_even x =
     (let n = \<lfloor>x\<rfloor>; r = x - of_int n
      in if r < 1 / 2 then n
         else if 1 / 2 < r then n + 1
         else if even n then n else n + 1)"

text \<open>The number of decimal digits of a positive integer.\<close>

function digits :: "int \<Rightarrow> int" where
  "digits n = (if n < 10 then 1 else digits (n div 10) + 1)"
  by pat_completeness auto
termination
  by (relation "measure nat") auto

declare digits.simps [simp del]

text \<open>
  The exponent of the leading digit of a positive number \<open>y\<close>: the \<open>e\<close> with
  \<open>10 powi e \<le> y < 10 powi (e + 1)\<close>.
\<close>

definition adjusted :: "rat \<Rightarrow> int" where
  "adjusted y =
     (if 1 \<le> y then digits \<lfloor>y\<rfloor> - 1
      else let z = 1 / y; k = digits \<lfloor>z\<rfloor> - 1
           in if z = 10 powi k then - k else - k - 1)"

text \<open>Rounding to \<open>prec\<close> significant digits.\<close>

definition decimal_round :: "rat \<Rightarrow> rat" where
  "decimal_round x =
     (if x = 0 then 0
      else let q = 10 powi (adjusted \<bar>x\<bar> - (prec - 1))
           in sgn x * of_int (round_half_even (\<bar>x\<bar> / q)) * q)"

definition decimal_add :: "rat \<Rightarrow> rat \<Rightarrow> rat" where
  "decimal_add a b = decimal_round (a + b)"

definition decimal_mul :: "rat \<Rightarrow> rat \<Rightarrow> rat" where
  "decimal_mul a b = decimal_round (a * b)"

definition decimal_neg :: "rat \<Rightarrow> rat" where
  "decimal_neg a = decimal_round (- a)"

subsection \<open>Python's partial operations\<close>

datatype error = DivisionByZero | InvalidOperation | TypeError | ValidationError

text \<open>Truth value of an optional number: \<^verbatim>\<open>None\<close> and zero are false.\<close>

definition truthy :: "rat option \<Rightarrow> bool" where
  "truthy v = (case v of None \<Rightarrow> False | Some x \<Rightarrow> x \<noteq> 0)"

text \<open>Addition with an optional left operand: \<^verbatim>\<open>None + x\<close> raises.\<close>

definition py_add :: "rat option \<Rightarrow> rat \<Rightarrow> error + rat" where
  "py_add v x = (case v of None \<Rightarrow> Inl TypeError | Some y \<Rightarrow> Inr (y + x))"

text \<open>
  \<^verbatim>\<open>Decimal\<close> division raises on a zero divisor (\<^verbatim>\<open>InvalidOperation\<close> for 0/0) and rounds the
  quotient otherwise.
\<close>

definition decimal_div :: "rat \<Rightarrow> rat \<Rightarrow> error + rat" where
  "decimal_div a b =
     (if b = 0 then (if a = 0 then Inl InvalidOperation else Inl DivisionByZero)
      else Inr (decimal_round (a / b)))"

text \<open>The product with an optional left operand: \<^verbatim>\<open>None * x\<close> raises.\<close>

definition optional_mul :: "rat option \<Rightarrow> rat \<Rightarrow> error + rat" where
  "optional_mul v x = (case v of None \<Rightarrow> Inl TypeError | Some y \<Rightarrow> Inr (decimal_mul y x))"

text \<open>
  The constructor of \<^verbatim>\<open>TrailingStop\<close> validates its arguments: both are required, and
  \<^verbatim>\<open>None\<close> for either is refused.
\<close>

definition new_TrailingStop :: "rat option \<Rightarrow> rat option \<Rightarrow> error + TrailingStop" where
  "new_TrailingStop a d =
     (case a of
        None \<Rightarrow> Inl ValidationError
      | Some x \<Rightarrow>
          (case d of
             None \<Rightarrow> Inl ValidationError
           | Some y \<Rightarrow> Inr \<lparr>activation_price_delta = x, trailing_delta = y\<rparr>))"

subsection \<open>The decision functions\<close>

definition refresh_order_condition :: "rat \<Rightarrow> 'ot PositionExecutor \<Rightarrow> 'ot OrderLevel \<Rightarrow> bool" where
  "refresh_order_condition now executor order_level =
     (if PositionConfig.timestamp (position_config executor)
           + of_int (order_refresh_time order_level) > now
      then False
      else True)"

definition early_stop_condition :: "'ot PositionExecutor \<Rightarrow> 'ot OrderLevel \<Rightarrow> bool" where
  "early_stop_condition executor order_level = False"

text \<open>
  The conjunction of the source evaluates its right operand only when the left one is
  true, so the sum is computed only for a close timestamp that is set.
\<close>

definition cooldown_condition :: "rat \<Rightarrow> 'ot PositionExecutor \<Rightarrow> 'ot OrderLevel \<Rightarrow> error + bool" where
  "cooldown_condition now executor order_level =
     (if truthy (close_timestamp executor)
      then (case py_add (close_timestamp executor) (of_int (cooldown_time order_level)) of
              Inl e \<Rightarrow> Inl e
            | Inr s \<Rightarrow> (if s > now then Inr True else Inr False))
      else Inr False)"

subsection \<open>Position sizing\<close>

text \<open>
  \<^verbatim>\<open>get_close_price\<close> and \<^verbatim>\<open>get_price_and_spread_multiplier\<close> belong to the base class;
  their results are the arguments \<open>close_price\<close> and \<open>processed\<close> (the triple that the
  source unpacks).  The result is \<open>Inr None\<close> where the source falls off the end of the
  function, and \<open>Inl\<close> where it raises: at the division, at the construction of the
  trailing stop, or at the product with the take profit, in this order.  The test before
  the trailing stop reads \<^verbatim>\<open>trailing_stop_trailing_delta\<close> twice, as the source does.
\<close>

definition get_position_config ::
  "rat \<Rightarrow> 'c BollinGridConfig_scheme \<Rightarrow> rat \<Rightarrow> rat \<times> rat \<times> int \<Rightarrow> 'ot OrderLevel
     \<Rightarrow> error + 'ot PositionConfig option" where
  "get_position_config now config close_price processed order_level =
     (case processed of (bbp, spread_multiplier, active_side) \<Rightarrow>
        let current_side = (if OrderLevel.side order_level = BUY then 1 else - 1) in
        if active_side = current_side then
          let spread_multiplier =
                (if OrderLevel.side order_level = SELL then spread_multiplier
                 else decimal_neg spread_multiplier);
              order_price =
                decimal_mul close_price
                  (decimal_add 1 (decimal_mul (spread_factor order_level) spread_multiplier))
          in case decimal_div (order_amount_usd order_level) order_price of
               Inl e \<Rightarrow> Inl e
             | Inr amount' \<Rightarrow>
                (case (if truthy (trailing_stop_trailing_delta (triple_barrier_conf order_level))
                          \<and> truthy (trailing_stop_trailing_delta (triple_barrier_conf order_level))
                       then map_sum id Some
                              (new_TrailingStop
                                 (trailing_stop_activation_price_delta
                                    (triple_barrier_conf order_level))
                                 (trailing_stop_trailing_delta
                                    (triple_barrier_conf order_level)))
                       else Inr None) of
                   Inl e \<Rightarrow> Inl e
                 | Inr trailing_stop' \<Rightarrow>
                    (case optional_mul
                            (TripleBarrierConf.take_profit (triple_barrier_conf order_level))
                            spread_multiplier of
                       Inl e \<Rightarrow> Inl e
                     | Inr take_profit' \<Rightarrow>
                         Inr (Some
                           \<lparr>PositionConfig.timestamp = now,
                            PositionConfig.trading_pair =
                              MarketMakingControllerConfigBase.trading_pair config,
                            PositionConfig.exchange =
                              MarketMakingControllerConfigBase.exchange config,
                            PositionConfig.side = OrderLevel.side order_level,
                            PositionConfig.amount = amount',
                            PositionConfig.take_profit = take_profit',
                            PositionConfig.stop_loss =
                              TripleBarrierConf.stop_loss (triple_barrier_conf order_level),
                            PositionConfig.time_limit =
                              TripleBarrierConf.time_limit (triple_barrier_conf order_level),
                            PositionConfig.entry_price = order_price,
                            PositionConfig.open_order_type =
                              TripleBarrierConf.open_order_type
                                (triple_barrier_conf order_level),
                            PositionConfig.take_profit_order_type =
                              TripleBarrierConf.take_profit_order_type
                                (triple_barrier_conf order_level),
                            PositionConfig.trailing_stop = trailing_stop',
                            PositionConfig.leverage =
                              MarketMakingControllerConfigBase.leverage config\<rparr>)))
        else Inr None)"

section \<open>The backtesting page\<close>

text \<open>
  \<^verbatim>\<open>pages/9_Backtesting.py\<close> is a straight-line script over two libraries: the page
  toolkit (\<^verbatim>\<open>st\<close>) and the backtesting framework (\<^verbatim>\<open>quants_lab\<close>).  The model runs the
  script in a state monad whose state is the trace of library calls made so far, in
  program order.  What the framework computes is not in these sources, so its functions
  are the fields of a parameter \<open>ql\<close>; a method that changes its object returns the changed
  object.  A library call that raises is outside the model.
\<close>

datatype 'fig widget = st_text string | st_plotly_chart 'fig bool

datatype 'fig event =
    Streamlit string
  | Fetch string
  | Construct string
  | Method string
  | Render nat "'fig widget"

record run_backtesting_args =
  order_amount :: rat
  leverage :: int
  initial_portfolio :: rat
  take_profit_multiplier :: rat
  stop_loss_multiplier :: rat
  time_limit :: int
  std_span :: "int option"

record ('df, 'st, 'bt, 'pos, 'an, 'fig) quants_lab =
  get_dataframe :: "string \<Rightarrow> string \<Rightarrow> string \<Rightarrow> 'df"
  StatArb :: "string \<Rightarrow> int \<Rightarrow> rat \<Rightarrow> 'st"
  Backtesting :: "'st \<Rightarrow> 'bt"
  run_backtesting :: "'bt \<Rightarrow> run_backtesting_args \<Rightarrow> 'pos"
  BacktestingAnalysis :: "'pos \<Rightarrow> 'df \<Rightarrow> 'an"
  create_base_figure :: "'an \<Rightarrow> bool \<Rightarrow> bool \<Rightarrow> int \<Rightarrow> 'an"
  add_trade_pnl :: "'an \<Rightarrow> int \<Rightarrow> 'an"
  text_report :: "'an \<Rightarrow> string"
  figure :: "'an \<Rightarrow> 'fig"

text \<open>A library call: its event goes to the end of the trace, its value to the script.\<close>

definition emit :: "'fig event \<Rightarrow> 'a \<Rightarrow> ('fig event list, 'a) state" where
  "emit e v = State (\<lambda>tr. (v, tr @ [e]))"

text \<open>
  The script, statement by statement.  \<open>Render 1\<close> and \<open>Render 2\<close> are the calls made inside
  the columns \<^verbatim>\<open>c1\<close> and \<^verbatim>\<open>c2\<close>; the argument of each is evaluated (a method call) before
  the widget is drawn.
\<close>

definition page ::
  "('df, 'st, 'bt, 'pos, 'an, 'fig) quants_lab \<Rightarrow> ('fig event list, unit) state" where
  "page ql = do {
     _ \<leftarrow> emit (Streamlit ''set_page_config'') ();
     _ \<leftarrow> emit (Streamlit ''title'') ();
     df_to_show \<leftarrow> emit (Fetch ''get_dataframe'')
       (get_dataframe ql ''binance_perpetual'' ''ETH-USDT'' ''1h'');
     strategy \<leftarrow> emit (Construct ''StatArb'') (StatArb ql ''ETH-USDT'' 24 (3 / 2));
     backtesting \<leftarrow> emit (Construct ''Backtesting'') (Backtesting ql strategy);
     positions \<leftarrow> emit (Method ''run_backtesting'')
       (run_backtesting ql backtesting
          \<lparr>order_amount = 50, leverage = 20, initial_portfolio = 100,
           take_profit_multiplier = 3, stop_loss_multiplier = 3 / 2,
           time_limit = 60 * 60 * 24, std_span = None\<rparr>);
     backtesting_analysis \<leftarrow> emit (Construct ''BacktestingAnalysis'')
       (BacktestingAnalysis ql positions df_to_show);
     backtesting_analysis \<leftarrow> emit (Method ''create_base_figure'')
       (create_base_figure ql backtesting_analysis False True 1);
     backtesting_analysis \<leftarrow> emit (Method ''add_trade_pnl'')
       (add_trade_pnl ql backtesting_analysis 2);
     _ \<leftarrow> emit (Streamlit ''columns'') ();
     report \<leftarrow> emit (Method ''text_report'') (text_report ql backtesting_analysis);
     _ \<leftarrow> emit (Render 1 (st_text report)) ();
     fig \<leftarrow> emit (Method ''figure'') (figure ql backtesting_analysis);
     emit (Render 2 (st_plotly_chart fig True)) ()
   }"

definition page_trace :: "('df, 'st, 'bt, 'pos, 'an, 'fig) quants_lab \<Rightarrow> 'fig event list" where
  "page_trace ql = snd (run_state (page ql) [])"

subsection \<open>Reading a trace\<close>

fun is_construct :: "'fig event \<Rightarrow> bool" where
  "is_construct (Construct c) = True"
| "is_construct e = False"

fun is_method :: "'fig event \<Rightarrow> bool" where
  "is_method (Method m) = True"
| "is_method e = False"

fun rendered :: "'fig event list \<Rightarrow> 'fig widget list" where
  "rendered [] = []"
| "rendered (Render c w # es) = w # rendered es"
| "rendered (e # es) = rendered es"

section \<open>Example inputs\<close>

text \<open>
  Concrete values at which the theorems below are instantiated: an order level with the
  side left open, a configuration with the defaults of \<^verbatim>\<open>BollinGridConfig\<close>, an executor
  whose position was configured at time 1000 and closed at time 2000, and a framework
  whose objects are strings.
\<close>

definition example_barriers :: "string TripleBarrierConf" where
  "example_barriers =
     \<lparr>TripleBarrierConf.stop_loss = Some (1 / 100),
      TripleBarrierConf.take_profit = Some 2,
      TripleBarrierConf.time_limit = Some 3600,
      trailing_stop_activation_price_delta = Some (1 / 100),
      trailing_stop_trailing_delta = Some (1 / 200),
      TripleBarrierConf.open_order_type = ''LIMIT'',
      TripleBarrierConf.take_profit_order_type = ''MARKET''\<rparr>"

definition example_level :: "TradeType \<Rightarrow> string OrderLevel" where
  "example_level s =
     \<lparr>OrderLevel.side = s, order_amount_usd = 49, spread_factor = 2,
      order_refresh_time = 60, cooldown_time = 15,
      triple_barrier_conf = example_barriers\<rparr>"

definition example_config :: BollinGridConfig where
  "example_config =
     \<lparr>MarketMakingControllerConfigBase.exchange = ''binance_perpetual'',
      MarketMakingControllerConfigBase.trading_pair = ''ETH-USDT'',
      MarketMakingControllerConfigBase.leverage = 20,
      strategy_name = ''bollinger_grid'', bb_length = 12, bb_long_threshold = 7 / 10,
      bb_short_threshold = 3 / 10, natr_length = 14\<rparr>"

definition example_position :: "string PositionConfig" where
  "example_position =
     \<lparr>PositionConfig.timestamp = 1000,
      PositionConfig.trading_pair = ''ETH-USDT'',
      PositionConfig.exchange = ''binance_perpetual'',
      PositionConfig.side = BUY,
      PositionConfig.amount = 1 / 40,
      PositionConfig.take_profit = - (2 / 100),
      PositionConfig.stop_loss = Some (1 / 100),
      PositionConfig.time_limit = Some 3600,
      PositionConfig.entry_price = 1960,
      PositionConfig.open_order_type = ''LIMIT'',
      PositionConfig.take_profit_order_type = ''MARKET'',
      PositionConfig.trailing_stop =
        Some \<lparr>activation_price_delta = 1 / 100, trailing_delta = 1 / 200\<rparr>,
      PositionConfig.leverage = 20\<rparr>"

definition example_executor :: "rat option \<Rightarrow> string PositionExecutor" where
  "example_executor c = \<lparr>position_config = example_position, close_timestamp = c\<rparr>"

definition example_lab :: "(string, string, string, string, string, string) quants_lab" where
  "example_lab =
     \<lparr>get_dataframe = (\<lambda>e p i. ''candles''),
      StatArb = (\<lambda>p n d. ''stat_arb''),
      Backtesting = (\<lambda>s. ''backtesting''),
      run_backtesting = (\<lambda>b a. ''positions''),
      BacktestingAnalysis = (\<lambda>p d. ''analysis''),
      create_base_figure = (\<lambda>a v p r. a),
      add_trade_pnl = (\<lambda>a r. a),
      text_report = (\<lambda>a. ''report''),
      figure = (\<lambda>a. ''figure'')\<rparr>"

section \<open>Properties of the Decimal arithmetic\<close>

text \<open>
  The exponent found by \<open>adjusted\<close> is that of the leading digit, so \<open>decimal_round\<close> keeps
  28 digits from the leading one on and moves its argument by at most half a unit of the
  last digit kept.  Rounding never changes the sign.
\<close>

lemma digits_pos: "1 \<le> digits n"
  by (induction n rule: digits.induct) (subst digits.simps, auto)

lemma digits_bounds:
  "1 \<le> n \<Longrightarrow> 10 ^ nat (digits n - 1) \<le> n \<and> n < 10 ^ nat (digits n)"
proof (induction n rule: digits.induct)
  case (1 n)
  show ?case
  proof (cases "n < 10")
    case True
    with 1(2) show ?thesis by (subst (1 2) digits.simps) simp
  next
    case False
    let ?m = "n div 10"
    let ?d = "digits ?m"
    from False have m: "1 \<le> ?m" by simp
    from 1(1)[OF False m] have lo: "10 ^ nat (?d - 1) \<le> ?m" and hi: "?m < 10 ^ nat ?d"
      by simp_all
    have dn: "digits n = ?d + 1" using False by (subst digits.simps) simp
    have dpos: "1 \<le> ?d" by (rule digits_pos)
    have "nat ?d = Suc (nat (?d - 1))" using dpos by simp
    then have "(10::int) ^ nat ?d = 10 * 10 ^ nat (?d - 1)" by simp
    then have "(10::int) ^ nat ?d \<le> 10 * ?m" using lo by simp
    also have "\<dots> \<le> n" by simp
    finally have a: "10 ^ nat (digits n - 1) \<le> n" by (simp add: dn)
    have "nat (?d + 1) = Suc (nat ?d)" using dpos by simp
    then have "(10::int) ^ nat (digits n) = 10 * 10 ^ nat ?d" by (simp add: dn)
    moreover have "n < 10 * 10 ^ nat ?d" using hi by linarith
    ultimately have b: "n < 10 ^ nat (digits n)" by simp
    from a b show ?thesis ..
  qed
qed

lemma digits_bounds_rat:
  assumes "1 \<le> (y::rat)"
  shows "10 powi (digits \<lfloor>y\<rfloor> - 1) \<le> y \<and> y < 10 powi (digits \<lfloor>y\<rfloor>)"
proof -
  let ?n = "\<lfloor>y\<rfloor>"
  have n: "1 \<le> ?n" using assms by simp
  have d: "1 \<le> digits ?n" by (rule digits_pos)
  from digits_bounds[OF n]
  have lo: "10 ^ nat (digits ?n - 1) \<le> ?n" and hi: "?n + 1 \<le> 10 ^ nat (digits ?n)"
    by simp_all
  have "(10::rat) powi (digits ?n - 1) = of_int (10 ^ nat (digits ?n - 1))"
    using d by (simp add: power_int_nonneg_exp)
  also have "\<dots> \<le> of_int ?n" using lo by (simp only: of_int_le_iff)
  also have "\<dots> \<le> y" by simp
  finally have a: "10 powi (digits ?n - 1) \<le> y" .
  have "y < of_int (?n + 1)" by simp linarith
  also have "\<dots> \<le> of_int (10 ^ nat (digits ?n))" using hi by (simp only: of_int_le_iff)
  also have "\<dots> = (10::rat) powi (digits ?n)"
    using d by (simp add: power_int_nonneg_exp)
  finally have b: "y < 10 powi (digits ?n)" .
  from a b show ?thesis ..
qed

lemma adjusted_bounds:
  assumes "0 < y"
  shows "10 powi adjusted y \<le> y \<and> y < 10 powi (adjusted y + 1)"
proof (cases "1 \<le> y")
  case True
  with digits_bounds_rat[OF True] show ?thesis by (simp add: adjusted_def)
next
  case False
  let ?z = "1 / y"
  let ?k = "digits \<lfloor>?z\<rfloor> - 1"
  have z: "1 \<le> ?z" using False assms by simp
  from digits_bounds_rat[OF z]
  have lo: "10 powi ?k \<le> ?z" and hi: "?z < 10 powi (?k + 1)" by simp_all
  have p: "0 < (10::rat) powi j" for j by simp
  show ?thesis
  proof (cases "?z = 10 powi ?k")
    case True
    have "y = 1 / ?z" by simp
    also have "1 / ?z = 1 / 10 powi ?k" using True by (rule arg_cong)
    also have "\<dots> = 10 powi (- ?k)" by (rule power_int_minus_divide[symmetric])
    finally have y: "y = 10 powi (- ?k)" .
    have "adjusted y = - ?k" using False True by (simp add: adjusted_def Let_def)
    moreover have "(10::rat) powi (- ?k) < 10 powi (- ?k + 1)"
      by (rule power_int_strict_increasing) simp_all
    ultimately show ?thesis using y by simp
  next
    case ne: False
    have e: "adjusted y = - ?k - 1" using False ne by (simp add: adjusted_def Let_def)
    from lo ne have "10 powi ?k < ?z" by simp
    then have "y < 1 / 10 powi ?k"
      using assms p[of ?k] by (simp add: field_simps)
    then have b: "y < 10 powi (- ?k)" by (simp only: power_int_minus_divide)
    from hi have "1 / 10 powi (?k + 1) < y"
      using assms p[of "?k + 1"] by (simp add: field_simps)
    then have a: "10 powi (- ?k - 1) \<le> y"
      using power_int_minus_divide[of "10::rat" "?k + 1"] by simp
    from a b show ?thesis by (simp add: e)
  qed
qed

lemma round_half_even_close: "\<bar>of_int (round_half_even x) - x\<bar> \<le> 1 / 2"
proof -
  have "of_int \<lfloor>x\<rfloor> \<le> x" "x < of_int \<lfloor>x\<rfloor> + 1" by linarith+
  then show ?thesis
    unfolding round_half_even_def Let_def by (auto simp add: abs_if) linarith+
qed

lemma decimal_round_close:
  "\<bar>decimal_round x - x\<bar> \<le> 10 powi (adjusted \<bar>x\<bar> - (prec - 1)) / 2"
proof (cases "x = 0")
  case True
  then show ?thesis by (simp add: decimal_round_def)
next
  case False
  define q :: rat where "q = 10 powi (adjusted \<bar>x\<bar> - (prec - 1))"
  define n where "n = round_half_even (\<bar>x\<bar> / q)"
  have q: "0 < q" by (simp add: q_def)
  have r: "decimal_round x = sgn x * of_int n * q"
    using False by (simp add: decimal_round_def Let_def q_def n_def)
  have "x = sgn x * (\<bar>x\<bar> / q) * q" using q by (simp add: sgn_if)
  then have "decimal_round x - x = sgn x * q * (of_int n - \<bar>x\<bar> / q)"
    by (simp add: r algebra_simps)
  then have "\<bar>decimal_round x - x\<bar> = q * \<bar>of_int n - \<bar>x\<bar> / q\<bar>"
    using False q by (simp add: abs_mult abs_sgn_eq)
  also have "\<dots> \<le> q * (1 / 2)"
    using q round_half_even_close[of "\<bar>x\<bar> / q"]
    by (intro mult_left_mono) (simp_all add: n_def)
  finally show ?thesis by (simp add: q_def)
qed

lemma round_half_even_nonneg: "0 \<le> x \<Longrightarrow> 0 \<le> round_half_even x"
  by (auto simp add: round_half_even_def Let_def)

lemma decimal_round_nonpos: "x \<le> 0 \<Longrightarrow> decimal_round x \<le> 0"
proof -
  assume x: "x \<le> 0"
  have "sgn x * (of_int (round_half_even (\<bar>x\<bar> / 10 powi k)) * 10 powi k) \<le> 0" for k
  proof (rule mult_nonpos_nonneg)
    show "sgn x \<le> 0" using x by (simp add: sgn_if)
    have "0 \<le> \<bar>x\<bar> / 10 powi k" by simp
    then have "0 \<le> round_half_even (\<bar>x\<bar> / 10 powi k)" by (rule round_half_even_nonneg)
    then show "0 \<le> of_int (round_half_even (\<bar>x\<bar> / 10 powi k)) * (10::rat) powi k"
      by simp
  qed
  then show ?thesis by (simp add: decimal_round_def Let_def mult.assoc)
qed

lemma decimal_round_nonneg: "0 \<le> x \<Longrightarrow> 0 \<le> decimal_round x"
proof -
  assume x: "0 \<le> x"
  have "0 \<le> sgn x * (of_int (round_half_even (\<bar>x\<bar> / 10 powi k)) * 10 powi k)" for k
  proof (rule mult_nonneg_nonneg)
    show "0 \<le> sgn x" using x by (simp add: sgn_if)
    have "0 \<le> \<bar>x\<bar> / 10 powi k" by simp
    then have "0 \<le> round_half_even (\<bar>x\<bar> / 10 powi k)" by (rule round_half_even_nonneg)
    then show "0 \<le> of_int (round_half_even (\<bar>x\<bar> / 10 powi k)) * (10::rat) powi k"
      by simp
  qed
  then show ?thesis by (simp add: decimal_round_def Let_def mult.assoc)
qed

text \<open>
  Evaluations at the example inputs: the order price on the BUY side,
  \<open>2000 * (1 - 2 * (1/100)) = 1960\<close>, and on the SELL side, \<open>2000 * (1 + 2 * (1/100)) = 2040\<close>;
  the quotient 49/2040, which has no finite decimal expansion and is rounded; and a spread
  factor of 64 with a spread multiplier of 1/64, for which the BUY-side order price is 0.
\<close>

lemma example_buy_price:
  "decimal_mul 2000 (decimal_add 1 (decimal_mul 2 (decimal_neg (1 / 100)))) = 1960"
  by code_simp

lemma example_sell_price:
  "decimal_mul 2000 (decimal_add 1 (decimal_mul 2 (1 / 100))) = 2040"
  by code_simp

lemma example_sell_amount:
  "decimal_round (49 / 2040) = 2401960784313725490196078431 / 10 ^ 29"
  by code_simp

lemma zero_price_example:
  "decimal_mul 2000 (decimal_add 1 (decimal_mul 64 (decimal_neg (1 / 64)))) = 0"
  by code_simp

section \<open>Properties of the controller\<close>

lemmas example_defs =
  example_barriers_def example_level_def example_config_def example_position_def
  example_executor_def

subsection \<open>Entry price and amount\<close>

lemma example_buy_position:
  "get_position_config 1000 example_config 2000 (1 / 2, 1 / 100, 1) (example_level BUY)
     = Inr (Some example_position)"
  by code_simp

text \<open>
  With a spread factor of 64 and a spread multiplier of 1/64 on the BUY side the order
  price is \<open>2000 * (1 + 64 * - (1/64)) = 0\<close>: the division raises, and no position
  configuration is returned although the order level is on the active side.
\<close>

theorem position_config_division_by_zero:
  "get_position_config 1000 example_config 2000 (1 / 2, 1 / 64, 1)
     ((example_level BUY)\<lparr>spread_factor := 64\<rparr>) = Inl DivisionByZero"
  by (simp add: get_position_config_def decimal_div_def zero_price_example example_defs)

text \<open>
  Claim C1, where a position can be configured: for every order level whose side is the
  active side (1 for BUY, -1 otherwise), whose order price
  \<open>close_price * (1 + spread_factor * m)\<close> is not zero, whose take profit is set, and whose
  trailing-stop activation delta is set if its trailing delta is set and not zero,
  \<^verbatim>\<open>get_position_config\<close> returns a position configuration whose entry price is that order
  price and whose amount is \<^verbatim>\<open>order_amount_usd\<close> divided by the entry price.  Here \<open>m\<close> is the
  spread multiplier on the SELL side and its negation otherwise, and every product, sum,
  negation and quotient is that of \<^verbatim>\<open>Decimal\<close>, rounded to 28 significant digits.
\<close>

theorem position_config_entry_price_and_amount:
  assumes "active_side = (if OrderLevel.side order_level = BUY then 1 else - 1)"
    and "decimal_mul close_price
           (decimal_add 1 (decimal_mul (spread_factor order_level)
              (if OrderLevel.side order_level = SELL then spread_multiplier
               else decimal_neg spread_multiplier))) \<noteq> 0"
    and "TripleBarrierConf.take_profit (triple_barrier_conf order_level) \<noteq> None"
    and "truthy (trailing_stop_trailing_delta (triple_barrier_conf order_level))
         \<Longrightarrow> trailing_stop_activation_price_delta (triple_barrier_conf order_level) \<noteq> None"
  shows "\<exists>pc. get_position_config now config close_price
                 (bbp, spread_multiplier, active_side) order_level = Inr (Some pc)
            \<and> entry_price pc =
                decimal_mul close_price
                  (decimal_add 1 (decimal_mul (spread_factor order_level)
                     (if OrderLevel.side order_level = SELL then spread_multiplier
                      else decimal_neg spread_multiplier)))
            \<and> amount pc = decimal_round (order_amount_usd order_level / entry_price pc)"
proof -
  obtain tp where tp: "TripleBarrierConf.take_profit (triple_barrier_conf order_level) = Some tp"
    using assms(3) by blast
  show ?thesis
  proof (cases "truthy (trailing_stop_trailing_delta (triple_barrier_conf order_level))")
    case True
    then obtain a d where
      "trailing_stop_activation_price_delta (triple_barrier_conf order_level) = Some a"
      "trailing_stop_trailing_delta (triple_barrier_conf order_level) = Some d"
      using assms(4) by (auto simp add: truthy_def split: option.splits)
    with True tp assms(1,2) show ?thesis
      by (simp add: get_position_config_def decimal_div_def optional_mul_def
          new_TrailingStop_def Let_def)
  next
    case False
    with tp assms(1,2) show ?thesis
      by (simp add: get_position_config_def decimal_div_def optional_mul_def Let_def)
  qed
qed

theorem position_config_entry_price_and_amount_witness:
  "\<exists>pc. get_position_config 1000 example_config 2000 (1 / 2, 1 / 100, - 1)
          (example_level SELL) = Inr (Some pc)
        \<and> entry_price pc = 2040
        \<and> amount pc = 2401960784313725490196078431 / 10 ^ 29"
  using position_config_entry_price_and_amount
    [where active_side = "- 1" and order_level = "example_level SELL"
       and close_price = 2000 and spread_multiplier = "1 / 100" and now = 1000
       and config = example_config and bbp = "1 / 2"]
  by (auto simp add: example_sell_price example_sell_amount truthy_def example_level_def
      example_barriers_def)

subsection \<open>The decision functions\<close>

text \<open>
  Claim C2: \<^verbatim>\<open>refresh_order_condition\<close> is false when the timestamp of the executor's
  position configuration plus the refresh time of the order level is strictly greater
  than the current time, and true otherwise, that is, exactly when the refresh time has
  elapsed since that timestamp.
\<close>

theorem refresh_order_condition_elapsed:
  "refresh_order_condition now executor order_level =
     (\<not> PositionConfig.timestamp (position_config executor)
          + of_int (order_refresh_time order_level) > now)
   \<and> refresh_order_condition now executor order_level =
     (PositionConfig.timestamp (position_config executor)
          + of_int (order_refresh_time order_level) \<le> now)"
  by (auto simp add: refresh_order_condition_def)

text \<open>
  Claim C3: \<^verbatim>\<open>cooldown_condition\<close> returns true exactly when the executor has a close
  timestamp that is set and not zero, and that timestamp plus the cooldown time of the
  order level is strictly greater than the current time; in every other case it returns
  false.  It never raises.
\<close>

theorem cooldown_condition_iff:
  "cooldown_condition now executor order_level =
     Inr (\<exists>t. close_timestamp executor = Some t \<and> t \<noteq> 0
              \<and> t + of_int (cooldown_time order_level) > now)"
  by (cases "close_timestamp executor")
     (simp_all add: cooldown_condition_def truthy_def py_add_def)

text \<open>
  Claim C6: \<^verbatim>\<open>early_stop_condition\<close> is false for every executor and every order level.
\<close>

theorem early_stop_condition_never:
  "early_stop_condition executor order_level = False"
  by (simp add: early_stop_condition_def)

text \<open>
  The refresh decision of one executor and one order level changes between the clock
  readings 1059 and 1060, and the cooldown decision between 2014 and 2015: neither is
  determined by the executor and the order level alone.
\<close>

theorem decisions_read_the_clock:
  "refresh_order_condition 1059 (example_executor (Some 2000)) (example_level BUY)
     \<noteq> refresh_order_condition 1060 (example_executor (Some 2000)) (example_level BUY)
   \<and> cooldown_condition 2014 (example_executor (Some 2000)) (example_level BUY)
     \<noteq> cooldown_condition 2015 (example_executor (Some 2000)) (example_level BUY)"
  by (simp add: refresh_order_condition_def cooldown_condition_def truthy_def py_add_def
      example_defs)

text \<open>
  Claim C7, with the clock among the inputs: at one clock reading, the refresh decision is
  determined by the timestamp of the position configuration and the refresh time, the
  cooldown decision by the close timestamp and the cooldown time, and the early-stop
  decision is the same for all inputs.  So two calls with equal executors, equal order
  levels and equal clock readings agree.
\<close>

theorem decisions_determined_with_clock:
  "(PositionConfig.timestamp (position_config executor)
      = PositionConfig.timestamp (position_config executor')
    \<and> order_refresh_time order_level = order_refresh_time order_level'
    \<longrightarrow> refresh_order_condition now executor order_level
        = refresh_order_condition now executor' order_level')
   \<and> (close_timestamp executor = close_timestamp executor'
    \<and> cooldown_time order_level = cooldown_time order_level'
    \<longrightarrow> cooldown_condition now executor order_level
        = cooldown_condition now executor' order_level')
   \<and> early_stop_condition executor order_level
        = early_stop_condition executor' order_level'"
  by (simp add: refresh_order_condition_def cooldown_condition_def early_stop_condition_def)

theorem decisions_determined_with_clock_witness:
  "refresh_order_condition 1060 (example_executor (Some 2000)) (example_level BUY)
     = refresh_order_condition 1060 (example_executor None) (example_level SELL)
   \<and> cooldown_condition 2014 (example_executor (Some 2000)) (example_level BUY)
     = cooldown_condition 2014
         ((example_executor (Some 2000))
            \<lparr>position_config := example_position\<lparr>PositionConfig.timestamp := 7\<rparr>\<rparr>)
         (example_level SELL)"
  using decisions_determined_with_clock
    [of "example_executor (Some 2000)" "example_executor None" "example_level BUY"
        "example_level SELL" 1060]
    decisions_determined_with_clock
    [of "example_executor (Some 2000)"
        "(example_executor (Some 2000))
            \<lparr>position_config := example_position\<lparr>PositionConfig.timestamp := 7\<rparr>\<rparr>"
        "example_level BUY" "example_level SELL" 2014]
  by (simp add: example_executor_def example_level_def)

subsection \<open>When a position is configured\<close>

text \<open>
  A RANGE order level is neither BUY nor SELL; its side counts as -1, and with the active
  side -1 it gets a position configuration.
\<close>

theorem range_level_gets_a_position:
  "get_position_config 1000 example_config 2000 (1 / 2, 1 / 100, - 1) (example_level RANGE)
     = Inr (Some (example_position\<lparr>PositionConfig.side := RANGE\<rparr>))"
  by code_simp

text \<open>
  Claim C4, with every side other than BUY counted as -1: \<^verbatim>\<open>get_position_config\<close> returns a
  position configuration only when the active side is 1 for a BUY order level, or -1 for
  a SELL or a RANGE order level; whenever the active side differs from that value it
  returns \<^verbatim>\<open>None\<close>, and nothing is computed or built.
\<close>

theorem position_config_only_on_active_side:
  "(get_position_config now config close_price (bbp, spread_multiplier, active_side)
      order_level = Inr (Some pc)
    \<longrightarrow> (OrderLevel.side order_level = BUY \<and> active_side = 1)
        \<or> (OrderLevel.side order_level = SELL \<and> active_side = - 1)
        \<or> (OrderLevel.side order_level = RANGE \<and> active_side = - 1))
   \<and> (active_side \<noteq> (if OrderLevel.side order_level = BUY then 1 else - 1)
    \<longrightarrow> get_position_config now config close_price (bbp, spread_multiplier, active_side)
          order_level = Inr None)"
  by (cases "OrderLevel.side order_level")
     (auto simp add: get_position_config_def Let_def split: if_splits sum.splits)

theorem position_config_only_on_active_side_witness:
  "get_position_config 1000 example_config 2000 (1 / 2, 1 / 100, 1) (example_level BUY)
     = Inr (Some example_position)
   \<and> OrderLevel.side (example_level BUY) = BUY
   \<and> get_position_config 1000 example_config 2000 (1 / 2, 1 / 100, - 1) (example_level BUY)
     = Inr None"
  using position_config_only_on_active_side
    [of 1000 example_config 2000 "1 / 2" "1 / 100" 1 "example_level BUY" example_position]
    position_config_only_on_active_side
    [of 1000 example_config 2000 "1 / 2" "1 / 100" "- 1" "example_level BUY"]
    example_buy_position
  by (simp add: example_level_def)

text \<open>
  Claim C5: for a BUY order level, a nonnegative spread multiplier and a nonnegative
  configured take profit, the take profit of a returned position configuration is at most
  zero: the multiplier is negated on the BUY side before it is multiplied in, and rounding
  keeps the sign.
\<close>

theorem buy_take_profit_nonpositive:
  assumes "get_position_config now config close_price (bbp, spread_multiplier, active_side)
             order_level = Inr (Some pc)"
    and "OrderLevel.side order_level = BUY"
    and "0 \<le> spread_multiplier"
    and "TripleBarrierConf.take_profit (triple_barrier_conf order_level) = Some tp"
    and "0 \<le> tp"
  shows "PositionConfig.take_profit pc \<le> 0"
proof -
  have "decimal_neg spread_multiplier \<le> 0"
    using assms(3) by (simp add: decimal_neg_def decimal_round_nonpos)
  then have "tp * decimal_neg spread_multiplier \<le> 0"
    using assms(5) by (rule mult_nonneg_nonpos[rotated])
  then have "decimal_mul tp (decimal_neg spread_multiplier) \<le> 0"
    by (simp add: decimal_mul_def decimal_round_nonpos)
  moreover have "PositionConfig.take_profit pc = decimal_mul tp (decimal_neg spread_multiplier)"
    using assms(1,2,4)
    by (auto simp add: get_position_config_def optional_mul_def Let_def
        split: if_splits sum.splits)
  ultimately show ?thesis by simp
qed

theorem buy_take_profit_nonpositive_witness:
  "get_position_config 1000 example_config 2000 (1 / 2, 1 / 100, 1) (example_level BUY)
     = Inr (Some example_position)
   \<and> PositionConfig.take_profit example_position \<le> 0"
  using buy_take_profit_nonpositive
    [of 1000 example_config 2000 "1 / 2" "1 / 100" 1 "example_level BUY" example_position 2]
    example_buy_position
  by (simp add: example_level_def example_barriers_def)

subsection \<open>Where the controller cannot fail\<close>

text \<open>
  At the order price 1960 an order level whose take profit is not set makes the product
  of line 103 raise.
\<close>

theorem unset_take_profit_raises:
  "decimal_mul 2000 (decimal_add 1 (decimal_mul 2 (decimal_neg (1 / 100)))) = 1960
   \<and> get_position_config 1000 example_config 2000 (1 / 2, 1 / 100, 1)
       ((example_level BUY)
          \<lparr>triple_barrier_conf :=
             example_barriers\<lparr>TripleBarrierConf.take_profit := None\<rparr>\<rparr>)
     = Inl TypeError"
  by code_simp

text \<open>
  Claim C10, where a position can be configured: \<^verbatim>\<open>refresh_order_condition\<close> and
  \<^verbatim>\<open>early_stop_condition\<close> consist of a sum of two numbers, a comparison and constants, and
  are Boolean functions; \<^verbatim>\<open>cooldown_condition\<close> adds to the close timestamp only behind the
  test that it is set, so it always returns; and \<^verbatim>\<open>get_position_config\<close> returns (a position
  configuration or \<^verbatim>\<open>None\<close>) whenever the order price is not zero, the take profit is set,
  and the trailing-stop activation delta is set if the trailing delta is set and not zero.
\<close>

theorem controller_never_fails:
  "(\<exists>b. cooldown_condition now executor order_level = Inr b)
   \<and> (decimal_mul close_price
         (decimal_add 1 (decimal_mul (spread_factor order_level)
            (if OrderLevel.side order_level = SELL then spread_multiplier
             else decimal_neg spread_multiplier))) \<noteq> 0
      \<and> TripleBarrierConf.take_profit (triple_barrier_conf order_level) \<noteq> None
      \<and> (truthy (trailing_stop_trailing_delta (triple_barrier_conf order_level))
           \<longrightarrow> trailing_stop_activation_price_delta (triple_barrier_conf order_level) \<noteq> None)
      \<longrightarrow> (\<exists>r. get_position_config now config close_price
                  (bbp, spread_multiplier, active_side) order_level = Inr r))"
proof -
  have "\<exists>b. cooldown_condition now executor order_level = Inr b"
    by (cases "close_timestamp executor")
       (auto simp add: cooldown_condition_def truthy_def py_add_def)
  moreover have "\<exists>r. get_position_config now config close_price
                  (bbp, spread_multiplier, active_side) order_level = Inr r"
    if "decimal_mul close_price
         (decimal_add 1 (decimal_mul (spread_factor order_level)
            (if OrderLevel.side order_level = SELL then spread_multiplier
             else decimal_neg spread_multiplier))) \<noteq> 0"
      and "TripleBarrierConf.take_profit (triple_barrier_conf order_level) \<noteq> None"
      and "truthy (trailing_stop_trailing_delta (triple_barrier_conf order_level))
           \<longrightarrow> trailing_stop_activation_price_delta (triple_barrier_conf order_level) \<noteq> None"
    using that
    by (auto simp add: get_position_config_def decimal_div_def optional_mul_def
        new_TrailingStop_def truthy_def Let_def split: option.splits)
  ultimately show ?thesis by blast
qed

theorem controller_never_fails_witness:
  "cooldown_condition 1000 (example_executor None) (example_level BUY) = Inr False
   \<and> get_position_config 1000 example_config 2000 (1 / 2, 1 / 100, 1) (example_level BUY)
     = Inr (Some example_position)"
  using controller_never_fails
    [where now = 1000 and executor = "example_executor None"
       and order_level = "example_level BUY" and close_price = 2000
       and spread_multiplier = "1 / 100" and config = example_config
       and bbp = "1 / 2" and active_side = 1]
    example_buy_position
  by (simp add: cooldown_condition_def truthy_def example_executor_def)

section \<open>Properties of the backtesting page\<close>

lemma run_emit: "run_state (emit e v) tr = (v, tr @ [e])"
  by (simp add: emit_def)

text \<open>
  Claim C8: the page builds a \<^verbatim>\<open>StatArb\<close> strategy, hands it to the \<^verbatim>\<open>Backtesting\<close>
  runner, runs the backtest, and what it draws is the text report and the figure of the
  analysis of the resulting positions.
\<close>

theorem page_backtests_stat_arb:
  "rendered (page_trace ql) =
     (let strategy = StatArb ql ''ETH-USDT'' 24 (3 / 2);
          positions = run_backtesting ql (Backtesting ql strategy)
            \<lparr>order_amount = 50, leverage = 20, initial_portfolio = 100,
             take_profit_multiplier = 3, stop_loss_multiplier = 3 / 2,
             time_limit = 86400, std_span = None\<rparr>;
          analysis = add_trade_pnl ql
            (create_base_figure ql
               (BacktestingAnalysis ql positions
                  (get_dataframe ql ''binance_perpetual'' ''ETH-USDT'' ''1h''))
               False True 1) 2
      in [st_text (text_report ql analysis), st_plotly_chart (figure ql analysis) True])"
  by (simp add: page_trace_def page_def run_emit Let_def)

text \<open>
  The page constructs three framework objects and calls five framework methods, not two
  and one.
\<close>

theorem page_three_objects_five_methods:
  "length (filter is_construct (page_trace example_lab)) = 3
   \<and> length (filter is_method (page_trace example_lab)) = 5"
  by (simp add: page_trace_def page_def run_emit)

text \<open>
  Claim C9, with the objects and methods the script has: the page executes, in order,
  the fetch of the data, the construction of \<^verbatim>\<open>StatArb\<close> and \<^verbatim>\<open>Backtesting\<close>, the call of
  \<^verbatim>\<open>run_backtesting\<close>, the construction of \<^verbatim>\<open>BacktestingAnalysis\<close>, the calls of
  \<^verbatim>\<open>create_base_figure\<close> and \<^verbatim>\<open>add_trade_pnl\<close>, then \<^verbatim>\<open>text_report\<close> and the drawing of
  the text, then \<^verbatim>\<open>figure\<close> and the drawing of the chart; three framework objects and five
  framework method calls, and no others.
\<close>

theorem page_call_sequence:
  "page_trace ql =
     (let analysis = add_trade_pnl ql
            (create_base_figure ql
               (BacktestingAnalysis ql
                  (run_backtesting ql (Backtesting ql (StatArb ql ''ETH-USDT'' 24 (3 / 2)))
                     \<lparr>order_amount = 50, leverage = 20, initial_portfolio = 100,
                      take_profit_multiplier = 3, stop_loss_multiplier = 3 / 2,
                      time_limit = 86400, std_span = None\<rparr>)
                  (get_dataframe ql ''binance_perpetual'' ''ETH-USDT'' ''1h''))
               False True 1) 2
      in [Streamlit ''set_page_config'', Streamlit ''title'',
          Fetch ''get_dataframe'',
          Construct ''StatArb'', Construct ''Backtesting'',
          Method ''run_backtesting'',
          Construct ''BacktestingAnalysis'',
          Method ''create_base_figure'', Method ''add_trade_pnl'',
          Streamlit ''columns'',
          Method ''text_report'', Render 1 (st_text (text_report ql analysis)),
          Method ''figure'', Render 2 (st_plotly_chart (figure ql analysis) True)])"
  by (simp add: page_trace_def page_def run_emit Let_def)

end
